theory Spec2Isabelle
  imports Complex_Main
begin

section \<open>TNB time-of-use price series generator (TNB\_rate.py)\<close>

text \<open>
  The module defines one function, \<open>generate_tnb_tou_data\<close>, on top of calls into the
  pandas library: \<open>pd.to_datetime\<close>, \<open>pd.Timedelta\<close>, timestamp arithmetic,
  \<open>pd.date_range\<close>, \<open>pd.DataFrame\<close> and the \<open>hour\<close> and \<open>dayofweek\<close> attributes of a
  timestamp. The library is not part of the module. What the module needs from it is
  taken as follows.

  \<^item> A time value is a signed 64-bit count of ticks: a timestamp counts from
    1970-01-01 00:00:00, naive (no time zone). The number of ticks in a second is the
    library's resolution; it differs between versions of the library and is a parameter.
    Building a time value outside the 64-bit range raises.
  \<^item> Which texts are timestamps is the library's business: its parser is a parameter,
    giving the tick count of a text or nothing.
  \<^item> \<open>date_range\<close> with a fixed frequency enumerates \<open>start, start + freq, ...\<close> up to
    and including \<open>end\<close> (downwards for a negative frequency), and divides by the
    frequency, so a zero frequency raises.

  The prices are the two float literals of the module; they are only ever copied and
  compared, never computed with, and are modelled as the reals \<open>34.43\<close> and \<open>38.52\<close>.
\<close>

subsection \<open>Module constants\<close>

definition PRICE_OFF_PEAK :: real where
  "PRICE_OFF_PEAK = 34.43"

definition PRICE_PEAK :: real where
  "PRICE_PEAK = 38.52"

definition PEAK_START_HOUR :: int where
  "PEAK_START_HOUR = 14"

definition PEAK_END_HOUR :: int where
  "PEAK_END_HOUR = 22"

subsection \<open>The library: time values\<close>

type_synonym timestamp = int

text \<open>What can go wrong inside the library calls, named by cause: a start text that
  is not a timestamp, a time value outside the 64-bit range, a range of frequency zero,
  columns of different lengths.\<close>

datatype error = Unparseable | OutOfBounds | ZeroFrequency | LengthMismatch

record library =
  resolution :: int
  parser :: "string \<Rightarrow> timestamp option"

definition in_bounds :: "int \<Rightarrow> bool" where
  "in_bounds v = (- (2 ^ 63) < v \<and> v < 2 ^ 63)"

text \<open>\<open>pd.to_datetime(s)\<close>.\<close>

definition to_datetime :: "library \<Rightarrow> string \<Rightarrow> error + timestamp" where
  "to_datetime lib s =
     (case parser lib s of
        None \<Rightarrow> Inl Unparseable
      | Some t \<Rightarrow> if in_bounds t then Inr t else Inl OutOfBounds)"

text \<open>\<open>pd.Timedelta(days=n)\<close> and \<open>pd.Timedelta(minutes=n)\<close>, in ticks.\<close>

definition Timedelta_days :: "library \<Rightarrow> int \<Rightarrow> error + int" where
  "Timedelta_days lib n =
     (let v = n * 86400 * resolution lib in if in_bounds v then Inr v else Inl OutOfBounds)"

definition Timedelta_minutes :: "library \<Rightarrow> int \<Rightarrow> error + int" where
  "Timedelta_minutes lib n =
     (let v = n * 60 * resolution lib in if in_bounds v then Inr v else Inl OutOfBounds)"

text \<open>A timestamp plus and minus a time difference.\<close>

definition timestamp_add :: "timestamp \<Rightarrow> int \<Rightarrow> error + timestamp" where
  "timestamp_add t d = (if in_bounds (t + d) then Inr (t + d) else Inl OutOfBounds)"

definition timestamp_sub :: "timestamp \<Rightarrow> int \<Rightarrow> error + timestamp" where
  "timestamp_sub t d = (if in_bounds (t - d) then Inr (t - d) else Inl OutOfBounds)"

text \<open>\<open>timestamp.hour\<close> (0..23) and \<open>timestamp.dayofweek\<close> (Monday = 0 .. Sunday = 6);
  1970-01-01 was a Thursday.\<close>

definition hour :: "library \<Rightarrow> timestamp \<Rightarrow> int" where
  "hour lib t = (t div (3600 * resolution lib)) mod 24"

definition dayofweek :: "library \<Rightarrow> timestamp \<Rightarrow> int" where
  "dayofweek lib t = (t div (86400 * resolution lib) + 3) mod 7"

text \<open>\<open>pd.date_range(start=s, end=e, freq=f'{n}min')\<close>: the start text is parsed again, the
  frequency is \<open>n\<close> minutes.\<close>

definition date_range ::
  "library \<Rightarrow> string \<Rightarrow> timestamp \<Rightarrow> int \<Rightarrow> error + timestamp list" where
  "date_range lib start end_date freq_minutes =
     (case to_datetime lib start of
        Inl e \<Rightarrow> Inl e
      | Inr b \<Rightarrow>
          (case Timedelta_minutes lib freq_minutes of
             Inl e \<Rightarrow> Inl e
           | Inr stride \<Rightarrow>
               if stride = 0 then Inl ZeroFrequency
               else Inr (map (\<lambda>k. b + k * stride) [0 .. (end_date - b) div stride])))"

subsection \<open>The library: the table\<close>

text \<open>The data frame after \<open>set_index('Timestamp')\<close>: the index and the three remaining
  columns. \<open>pd.DataFrame\<close> raises when its columns differ in length.\<close>

record dataframe =
  Timestamp :: "timestamp list"
  Price_sen_per_kWh :: "real list"
  DayOfWeek :: "int list"
  Hour :: "int list"

definition DataFrame ::
  "timestamp list \<Rightarrow> real list \<Rightarrow> int list \<Rightarrow> int list \<Rightarrow> error + dataframe" where
  "DataFrame ts ps ds hs =
     (if length ps = length ts \<and> length ds = length ts \<and> length hs = length ts
      then Inr \<lparr>Timestamp = ts, Price_sen_per_kWh = ps, DayOfWeek = ds, Hour = hs\<rparr>
      else Inl LengthMismatch)"

definition nrows :: "dataframe \<Rightarrow> nat" where
  "nrows df = length (Timestamp df)"

subsection \<open>generate\_tnb\_tou\_data\<close>

text \<open>The body of the loop over \<open>time_index\<close> (source lines 32 to 46): the price of one
  timestamp.\<close>

definition price_at :: "library \<Rightarrow> timestamp \<Rightarrow> real" where
  "price_at lib timestamp =
     (let hour = hour lib timestamp;
          day_of_week = dayofweek lib timestamp;
          is_weekend = (day_of_week \<ge> 5)
      in if is_weekend then PRICE_OFF_PEAK
         else if PEAK_START_HOUR \<le> hour \<and> hour < PEAK_END_HOUR then PRICE_PEAK
         else PRICE_OFF_PEAK)"

text \<open>The loop itself: \<open>prices\<close> starts empty and grows by one price per timestamp.\<close>

fun price_loop :: "library \<Rightarrow> timestamp list \<Rightarrow> real list \<Rightarrow> real list" where
  "price_loop lib [] prices = prices"
| "price_loop lib (timestamp # rest) prices =
     price_loop lib rest (prices @ [price_at lib timestamp])"

text \<open>The function. Source line 26 evaluates from left to right: the start is parsed,
  the day difference is built and added, the minute difference is built and
  subtracted; each of the five steps can raise.\<close>

definition generate_tnb_tou_data ::
  "library \<Rightarrow> string \<Rightarrow> int \<Rightarrow> int \<Rightarrow> error + dataframe" where
  "generate_tnb_tou_data lib start_date num_days time_step_minutes =
     (case to_datetime lib start_date of
        Inl e \<Rightarrow> Inl e
      | Inr t0 \<Rightarrow>
     (case Timedelta_days lib num_days of
        Inl e \<Rightarrow> Inl e
      | Inr days \<Rightarrow>
     (case timestamp_add t0 days of
        Inl e \<Rightarrow> Inl e
      | Inr t1 \<Rightarrow>
     (case Timedelta_minutes lib time_step_minutes of
        Inl e \<Rightarrow> Inl e
      | Inr minutes \<Rightarrow>
     (case timestamp_sub t1 minutes of
        Inl e \<Rightarrow> Inl e
      | Inr end_date \<Rightarrow>
     (case date_range lib start_date end_date time_step_minutes of
        Inl e \<Rightarrow> Inl e
      | Inr time_index \<Rightarrow>
          DataFrame time_index (price_loop lib time_index [])
            (map (dayofweek lib) time_index) (map (hour lib) time_index)))))))"

subsection \<open>The civil calendar\<close>

text \<open>Days from 1970-01-01 to the civil date \<open>y-m-d\<close> (proleptic Gregorian calendar),
  and the tick count of a civil date and time of day at resolution \<open>r\<close>.\<close>

definition days_from_civil :: "int \<Rightarrow> int \<Rightarrow> int \<Rightarrow> int" where
  "days_from_civil y m d =
     (let y' = (if m \<le> 2 then y - 1 else y);
          era = y' div 400;
          yoe = y' - era * 400;
          doy = (153 * (if m > 2 then m - 3 else m + 9) + 2) div 5 + d - 1;
          doe = yoe * 365 + yoe div 4 - yoe div 100 + doy
      in era * 146097 + doe - 719468)"

definition civil_ticks :: "int \<Rightarrow> int \<Rightarrow> int \<Rightarrow> int \<Rightarrow> int \<Rightarrow> int \<Rightarrow> int \<Rightarrow> timestamp" where
  "civil_ticks r y m d hh mm ss = (days_from_civil y m d * 86400 + hh * 3600 + mm * 60 + ss) * r"

text \<open>The calendar's own rule for the day of the week of a civil date, by the year,
  the month and the day (a table of month offsets; Monday = 0 .. Sunday = 6). It does
  not go through tick counts and is the reference for the \<open>DayOfWeek\<close> column.\<close>

definition month_offset :: "int \<Rightarrow> int" where
  "month_offset m = [0, 3, 2, 5, 0, 3, 5, 1, 4, 6, 2, 4] ! nat (m - 1)"

definition gregorian_weekday :: "int \<Rightarrow> int \<Rightarrow> int \<Rightarrow> int" where
  "gregorian_weekday y m d =
     (let y' = (if m < 3 then y - 1 else y)
      in (y' + y' div 4 - y' div 100 + y' div 400 + month_offset m + d + 6) mod 7)"

subsection \<open>A library instance\<close>

text \<open>The library with its parser restricted to the text shape the module's own call
  uses, \<open>YYYY-MM-DD HH:MM:SS\<close>, also with \<open>T\<close> between date and time or with the date
  alone (midnight): on such a text it gives what the library gives, the tick count of
  that civil date and time of day; it reads no other text, whereas the library reads
  many more. It serves for the concrete runs below, which use texts of that shape (and
  once a text that is no timestamp at all). The general statements are about every
  library, whatever its parser reads.\<close>

definition is_leap :: "int \<Rightarrow> bool" where
  "is_leap y = (if y mod 400 = 0 then True else if y mod 100 = 0 then False else y mod 4 = 0)"

definition days_in_month :: "int \<Rightarrow> int \<Rightarrow> int" where
  "days_in_month y m =
     (if m = 2 then (if is_leap y then 29 else 28)
      else if m = 4 \<or> m = 6 \<or> m = 9 \<or> m = 11 then 30 else 31)"

definition digit_val :: "char \<Rightarrow> int option" where
  "digit_val c =
     (let n = (of_char c :: nat) in if 48 \<le> n \<and> n \<le> 57 then Some (int n - 48) else None)"

fun number :: "string \<Rightarrow> int \<Rightarrow> int option" where
  "number [] acc = Some acc"
| "number (c # cs) acc =
     (case digit_val c of None \<Rightarrow> None | Some d \<Rightarrow> number cs (10 * acc + d))"

definition iso_parser :: "int \<Rightarrow> string \<Rightarrow> timestamp option" where
  "iso_parser r text =
     (let s = (if length text = 10 then text @ '' 00:00:00'' else text) in
      if length s = 19 \<and> s ! 4 = CHR ''-'' \<and> s ! 7 = CHR ''-''
         \<and> (s ! 10 = CHR '' '' \<or> s ! 10 = CHR ''T'')
         \<and> s ! 13 = CHR '':'' \<and> s ! 16 = CHR '':''
      then
        (case (number (take 4 s) 0, number (take 2 (drop 5 s)) 0,
               number (take 2 (drop 8 s)) 0, number (take 2 (drop 11 s)) 0,
               number (take 2 (drop 14 s)) 0, number (take 2 (drop 17 s)) 0) of
           (Some y, Some m, Some d, Some hh, Some mm, Some ss) \<Rightarrow>
             if 1 \<le> m \<and> m \<le> 12 \<and> 1 \<le> d \<and> d \<le> days_in_month y m
                \<and> hh \<le> 23 \<and> mm \<le> 59 \<and> ss \<le> 59
             then Some (civil_ticks r y m d hh mm ss)
             else None
         | _ \<Rightarrow> None)
      else None)"

definition pandas_at :: "int \<Rightarrow> library" where
  "pandas_at r = \<lparr>resolution = r, parser = iso_parser r\<rparr>"

text \<open>Two resolutions: nanoseconds and microseconds.\<close>

abbreviation pandas_ns :: library where
  "pandas_ns \<equiv> pandas_at 1000000000"

abbreviation pandas_us :: library where
  "pandas_us \<equiv> pandas_at 1000000"

subsection \<open>Auxiliary notions for the statements\<close>

text \<open>Not part of the module. \<open>representable\<close> says that the four time values of source
  line 26 (the day difference, the start plus it, the minute difference, the end) are
  inside the 64-bit range. \<open>grid\<close> is the time index in closed form, with the number of
  rows made explicit; lemma \<open>date_range_grid\<close> below shows that it is the index the
  function builds.\<close>

definition representable :: "library \<Rightarrow> timestamp \<Rightarrow> int \<Rightarrow> int \<Rightarrow> bool" where
  "representable lib t0 num_days step =
     (in_bounds (num_days * 86400 * resolution lib)
      \<and> in_bounds (t0 + num_days * 86400 * resolution lib)
      \<and> in_bounds (step * 60 * resolution lib)
      \<and> in_bounds (t0 + num_days * 86400 * resolution lib - step * 60 * resolution lib))"

definition grid :: "library \<Rightarrow> timestamp \<Rightarrow> int \<Rightarrow> int \<Rightarrow> timestamp list" where
  "grid lib t0 num_days step =
     map (\<lambda>k. t0 + k * (step * 60 * resolution lib)) [0 .. num_days * 1440 div step - 1]"


section \<open>Properties\<close>


subsection \<open>The loop and the index\<close>

lemma price_loop_append: "price_loop lib ts acc = acc @ map (price_at lib) ts"
  by (induction ts arbitrary: acc) simp_all

lemma price_at_unfold:
  "price_at lib t =
     (if 5 \<le> dayofweek lib t then 34.43
      else if 14 \<le> hour lib t \<and> hour lib t < 22 then 38.52 else 34.43)"
  by (simp add: price_at_def Let_def PRICE_OFF_PEAK_def PRICE_PEAK_def
      PEAK_START_HOUR_def PEAK_END_HOUR_def)

lemma grid_bound:
  fixes r :: int
  assumes "step \<noteq> 0" and "r \<noteq> 0"
  shows "(num_days * 86400 * r - step * 60 * r) div (step * 60 * r)
           = num_days * 1440 div step - 1"
proof -
  have nz: "step * 60 * r \<noteq> 0" using assms by simp
  have "num_days * 86400 * r = (num_days * 86400 * r - step * 60 * r) + step * 60 * r" by simp
  then have "num_days * 86400 * r div (step * 60 * r)
      = (num_days * 86400 * r - step * 60 * r) div (step * 60 * r) + 1"
    using nz by (metis add.commute div_add_self1)
  moreover have "num_days * 86400 * r div (step * 60 * r) = num_days * 1440 div step"
  proof -
    have "num_days * 86400 * r = (num_days * 1440) * (60 * r)" by simp
    moreover have "step * 60 * r = step * (60 * r)" by simp
    moreover have "60 * r \<noteq> 0" using assms(2) by simp
    ultimately show ?thesis by (metis div_mult_mult2)
  qed
  ultimately show ?thesis by simp
qed

lemma length_grid: "length (grid lib t0 num_days step) = nat (num_days * 1440 div step)"
  by (simp add: grid_def)

lemma nth_grid:
  "i < length (grid lib t0 num_days step) \<Longrightarrow>
     grid lib t0 num_days step ! i = t0 + int i * (step * 60 * resolution lib)"
  by (simp add: grid_def)

lemma grid_step:
  assumes "Suc i < length (grid lib t0 num_days step)"
  shows "grid lib t0 num_days step ! Suc i - grid lib t0 num_days step ! i
           = step * 60 * resolution lib"
proof -
  have "i < length (grid lib t0 num_days step)" using assms by simp
  then show ?thesis using assms by (simp add: nth_grid algebra_simps)
qed

lemma grid_increasing:
  assumes "0 < step" and "0 < resolution lib"
  shows "sorted_wrt (<) (grid lib t0 num_days step)"
proof -
  have pos: "0 < step * 60 * resolution lib" using assms by simp
  have "grid lib t0 num_days step ! i < grid lib t0 num_days step ! j"
    if "i < j" and "j < length (grid lib t0 num_days step)" for i j
  proof -
    have "i < length (grid lib t0 num_days step)" using that by simp
    moreover have "int i * (step * 60 * resolution lib) < int j * (step * 60 * resolution lib)"
      using that(1) pos by (simp del: mult_less_cancel_right add: mult_strict_right_mono)
    ultimately show ?thesis using that(2) by (simp add: nth_grid)
  qed
  then show ?thesis by (simp add: sorted_wrt_iff_nth_less)
qed

lemma date_range_grid:
  assumes "to_datetime lib s = Inr t0" and "step \<noteq> 0" and "resolution lib \<noteq> 0"
    and "in_bounds (step * 60 * resolution lib)"
  shows "date_range lib s (t0 + num_days * 86400 * resolution lib - step * 60 * resolution lib) step
           = Inr (grid lib t0 num_days step)"
  using assms grid_bound [OF assms(2,3), of num_days]
  by (simp add: date_range_def grid_def Timedelta_minutes_def)

subsection \<open>What the function returns\<close>

lemma generate_parsed:
  assumes "to_datetime lib s = Inr t0" and "step \<noteq> 0" and "resolution lib \<noteq> 0"
    and "representable lib t0 num_days step"
  shows "generate_tnb_tou_data lib s num_days step =
           Inr \<lparr>Timestamp = grid lib t0 num_days step,
                Price_sen_per_kWh = map (price_at lib) (grid lib t0 num_days step),
                DayOfWeek = map (dayofweek lib) (grid lib t0 num_days step),
                Hour = map (hour lib) (grid lib t0 num_days step)\<rparr>"
proof -
  have b: "in_bounds (num_days * 86400 * resolution lib)"
    "in_bounds (t0 + num_days * 86400 * resolution lib)"
    "in_bounds (step * 60 * resolution lib)"
    "in_bounds (t0 + num_days * 86400 * resolution lib - step * 60 * resolution lib)"
    using assms(4) by (simp_all add: representable_def)
  show ?thesis
    using assms(1) b date_range_grid [OF assms(1,2,3) b(3), of num_days]
    by (simp add: generate_tnb_tou_data_def Timedelta_days_def Timedelta_minutes_def
        timestamp_add_def timestamp_sub_def DataFrame_def price_loop_append)
qed

lemma generate_unparsed:
  "to_datetime lib s = Inl e \<Longrightarrow> generate_tnb_tou_data lib s num_days step = Inl e"
  by (simp add: generate_tnb_tou_data_def)

lemma generate_zero_stride:
  assumes "to_datetime lib s = Inr t0" and "representable lib t0 num_days step"
    and "step = 0 \<or> resolution lib = 0"
  shows "generate_tnb_tou_data lib s num_days step = Inl ZeroFrequency"
proof -
  have z: "step * 60 * resolution lib = 0" using assms(3) by auto
  have m: "Timedelta_minutes lib step = Inr 0"
    unfolding Timedelta_minutes_def Let_def z by (simp add: in_bounds_def)
  have b: "in_bounds (num_days * 86400 * resolution lib)"
    "in_bounds (t0 + num_days * 86400 * resolution lib)"
    using assms(2) by (simp_all add: representable_def)
  show ?thesis
    using assms(1) m b
    by (simp add: generate_tnb_tou_data_def Timedelta_days_def
        timestamp_add_def timestamp_sub_def date_range_def)
qed

lemma generate_out_of_range:
  assumes "to_datetime lib s = Inr t0" and "\<not> representable lib t0 num_days step"
  shows "generate_tnb_tou_data lib s num_days step = Inl OutOfBounds"
  using assms
  by (auto simp add: generate_tnb_tou_data_def representable_def Timedelta_days_def
      Timedelta_minutes_def timestamp_add_def timestamp_sub_def Let_def)

lemma generate_Inr_cases:
  assumes "generate_tnb_tou_data lib s num_days step = Inr df"
  obtains t0 where "to_datetime lib s = Inr t0" and "step \<noteq> 0" and "resolution lib \<noteq> 0"
    and "representable lib t0 num_days step"
    and "df = \<lparr>Timestamp = grid lib t0 num_days step,
                Price_sen_per_kWh = map (price_at lib) (grid lib t0 num_days step),
                DayOfWeek = map (dayofweek lib) (grid lib t0 num_days step),
                Hour = map (hour lib) (grid lib t0 num_days step)\<rparr>"
proof (cases "to_datetime lib s")
  case (Inl e)
  then show ?thesis using assms generate_unparsed by simp
next
  case (Inr t0)
  have rep: "representable lib t0 num_days step"
    using assms(1) generate_out_of_range [OF Inr] by fastforce
  have nz: "step \<noteq> 0" "resolution lib \<noteq> 0"
    using assms(1) generate_zero_stride [OF Inr rep] by fastforce+
  from generate_parsed [OF Inr nz rep] show ?thesis
    using assms(1) Inr nz rep that by simp
qed

lemma generated_row:
  assumes "generate_tnb_tou_data lib start_date num_days time_step_minutes = Inr df"
    and "i < nrows df"
  shows "DayOfWeek df ! i = dayofweek lib (Timestamp df ! i)"
    and "Hour df ! i = hour lib (Timestamp df ! i)"
    and "Price_sen_per_kWh df ! i = price_at lib (Timestamp df ! i)"
proof -
  from assms(1) obtain t0 where
    df: "df = \<lparr>Timestamp = grid lib t0 num_days time_step_minutes,
                Price_sen_per_kWh = map (price_at lib) (grid lib t0 num_days time_step_minutes),
                DayOfWeek = map (dayofweek lib) (grid lib t0 num_days time_step_minutes),
                Hour = map (hour lib) (grid lib t0 num_days time_step_minutes)\<rparr>"
    by (rule generate_Inr_cases)
  have i: "i < length (grid lib t0 num_days time_step_minutes)"
    using assms(2) by (simp add: df nrows_def)
  show "DayOfWeek df ! i = dayofweek lib (Timestamp df ! i)" using i by (simp add: df)
  show "Hour df ! i = hour lib (Timestamp df ! i)" using i by (simp add: df)
  show "Price_sen_per_kWh df ! i = price_at lib (Timestamp df ! i)" using i by (simp add: df)
qed

lemma generated_lengths:
  assumes "generate_tnb_tou_data lib start_date num_days time_step_minutes = Inr df"
  shows "length (Price_sen_per_kWh df) = nrows df" and "length (DayOfWeek df) = nrows df"
    and "length (Hour df) = nrows df"
proof -
  from assms(1) obtain t0 where
    df: "df = \<lparr>Timestamp = grid lib t0 num_days time_step_minutes,
                Price_sen_per_kWh = map (price_at lib) (grid lib t0 num_days time_step_minutes),
                DayOfWeek = map (dayofweek lib) (grid lib t0 num_days time_step_minutes),
                Hour = map (hour lib) (grid lib t0 num_days time_step_minutes)\<rparr>"
    by (rule generate_Inr_cases)
  show "length (Price_sen_per_kWh df) = nrows df" by (simp add: df nrows_def)
  show "length (DayOfWeek df) = nrows df" by (simp add: df nrows_def)
  show "length (Hour df) = nrows df" by (simp add: df nrows_def)
qed

subsection \<open>The time attributes and the civil calendar\<close>

text \<open>
  Both attributes stay in their ranges. On the tick count of a civil date and time of
  day, the hour is the hour field and the day of week is the one of the day count (day 0
  is a Thursday), which is the calendar's weekday of the date.
\<close>

lemma hour_range: "0 \<le> hour lib t \<and> hour lib t \<le> 23"
  by (simp add: hour_def)

lemma dayofweek_range: "0 \<le> dayofweek lib t \<and> dayofweek lib t \<le> 6"
  by (simp add: dayofweek_def)

lemma ticks_to_seconds:
  fixes r :: int
  assumes "0 \<le> part" and "part < r"
  shows "(S * r + part) div r = S"
proof -
  have "(part + S * r) div r = S + part div r"
    using assms by (simp add: div_pos_pos_trivial)
  then show ?thesis using assms by (simp add: add.commute div_pos_pos_trivial)
qed

lemma hour_of_civil:
  assumes "0 \<le> hh" "hh \<le> 23" "0 \<le> mm" "mm \<le> 59" "0 \<le> ss" "ss \<le> 59"
    and "0 \<le> part" "part < resolution lib"
  shows "hour lib (civil_ticks (resolution lib) y m d hh mm ss + part) = hh"
proof -
  let ?r = "resolution lib"
  let ?D = "days_from_civil y m d"
  let ?S = "?D * 86400 + hh * 3600 + mm * 60 + ss"
  have r: "0 < ?r" using assms(7,8) by simp
  have "(?S * ?r + part) div (?r * 3600) = (?S * ?r + part) div ?r div 3600"
    by (rule zdiv_zmult2_eq) simp
  also have "\<dots> = ?S div 3600" using ticks_to_seconds [OF assms(7,8)] by simp
  finally have t: "(?S * ?r + part) div (3600 * ?r) = ?S div 3600"
    by (simp add: mult.commute)
  have "(mm * 60 + ss + (?D * 24 + hh) * 3600) div 3600 = (mm * 60 + ss) div 3600 + (?D * 24 + hh)"
    by simp
  moreover have "(mm * 60 + ss) div 3600 = 0"
    using assms by (intro div_pos_pos_trivial) auto
  moreover have "?S = mm * 60 + ss + (?D * 24 + hh) * 3600" by simp
  ultimately have "?S div 3600 = ?D * 24 + hh" by simp
  then show ?thesis using t assms(1,2) by (simp add: hour_def civil_ticks_def)
qed

lemma dayofweek_of_civil:
  assumes "0 \<le> hh" "hh \<le> 23" "0 \<le> mm" "mm \<le> 59" "0 \<le> ss" "ss \<le> 59"
    and "0 \<le> part" "part < resolution lib"
  shows "dayofweek lib (civil_ticks (resolution lib) y m d hh mm ss + part)
           = (days_from_civil y m d + 3) mod 7"
proof -
  let ?r = "resolution lib"
  let ?D = "days_from_civil y m d"
  let ?S = "?D * 86400 + hh * 3600 + mm * 60 + ss"
  have "(?S * ?r + part) div (?r * 86400) = (?S * ?r + part) div ?r div 86400"
    by (rule zdiv_zmult2_eq) simp
  also have "\<dots> = ?S div 86400" using ticks_to_seconds [OF assms(7,8)] by simp
  finally have t: "(?S * ?r + part) div (86400 * ?r) = ?S div 86400"
    by (simp add: mult.commute)
  have "(hh * 3600 + mm * 60 + ss + ?D * 86400) div 86400
          = (hh * 3600 + mm * 60 + ss) div 86400 + ?D"
    by simp
  moreover have "(hh * 3600 + mm * 60 + ss) div 86400 = 0"
    using assms by (intro div_pos_pos_trivial) auto
  moreover have "?S = hh * 3600 + mm * 60 + ss + ?D * 86400" by simp
  ultimately have "?S div 86400 = ?D" by simp
  then show ?thesis using t by (simp add: dayofweek_def civil_ticks_def)
qed

lemma weekday_core:
  fixes y k :: int
  shows "(y div 400 * 146097 + ((y - y div 400 * 400) * 365 + (y - y div 400 * 400) div 4
            - (y - y div 400 * 400) div 100 + k) - 719468 + 3) mod 7
         = (y + y div 4 - y div 100 + y div 400 + k + 2) mod 7"
proof -
  define era where "era = y div 400"
  define yoe where "yoe = y - era * 400"
  have "(yoe + era * 100 * 4) div 4 = yoe div 4 + era * 100"
    by simp
  moreover have y4: "y = yoe + era * 100 * 4" by (simp add: yoe_def)
  ultimately have d4: "y div 4 = era * 100 + yoe div 4" by simp
  have "(yoe + era * 4 * 100) div 100 = yoe div 100 + era * 4"
    by simp
  moreover have "y = yoe + era * 4 * 100" by (simp add: yoe_def)
  ultimately have d100: "y div 100 = era * 4 + yoe div 100" by simp
  have y: "y = yoe + era * 400" by (simp add: yoe_def)
  have "era * 146097 + (yoe * 365 + yoe div 4 - yoe div 100 + k) - 719468 + 3
      = (yoe + era * 400 + (era * 100 + yoe div 4) - (era * 4 + yoe div 100) + era + k + 2)
          + 7 * (era * 20800 + yoe * 52 - 102781)"
    by simp
  then have "(era * 146097 + (yoe * 365 + yoe div 4 - yoe div 100 + k) - 719468 + 3) mod 7
      = (yoe + era * 400 + (era * 100 + yoe div 4) - (era * 4 + yoe div 100) + era + k + 2) mod 7"
    by (metis mod_mult_self2)
  then have "(era * 146097 + (yoe * 365 + yoe div 4 - yoe div 100 + k) - 719468 + 3) mod 7
      = (y + y div 4 - y div 100 + era + k + 2) mod 7"
    using d4 d100 y by metis
  then show ?thesis
    unfolding yoe_def era_def .
qed

lemma month_congruent:
  assumes "1 \<le> m" "m \<le> 12"
  shows "((153 * (if m > 2 then m - 3 else m + 9) + 2) div 5 + 1) mod 7 = (month_offset m + 6) mod 7"
proof -
  from assms have "m = 1 \<or> m = 2 \<or> m = 3 \<or> m = 4 \<or> m = 5 \<or> m = 6 \<or> m = 7 \<or> m = 8
      \<or> m = 9 \<or> m = 10 \<or> m = 11 \<or> m = 12" by arith
  then show ?thesis
    by (elim disjE) (simp_all add: month_offset_def)
qed

lemma weekday_agrees:
  assumes "1 \<le> m" "m \<le> 12"
  shows "gregorian_weekday y m d = (days_from_civil y m d + 3) mod 7"
proof -
  define y' where "y' = (if m < 3 then y - 1 else y)"
  define doy where "doy = (153 * (if m > 2 then m - 3 else m + 9) + 2) div 5"
  define Y where "Y = y' + y' div 4 - y' div 100 + y' div 400 + d"
  have y'': "(if m \<le> 2 then y - 1 else y) = y'" by (simp add: y'_def)
  have "(days_from_civil y m d + 3) mod 7 = (y' + y' div 4 - y' div 100 + y' div 400 + (doy + d - 1) + 2) mod 7"
    using weekday_core [of y' "doy + d - 1"]
    by (simp add: days_from_civil_def Let_def y'' doy_def)
  also have "\<dots> = (Y + (doy + 1)) mod 7" by (simp add: Y_def algebra_simps)
  also have "\<dots> = (Y + (month_offset m + 6)) mod 7"
    using month_congruent [OF assms] unfolding doy_def [symmetric] by (rule mod_add_cong [OF refl])
  also have "\<dots> = gregorian_weekday y m d"
    by (simp add: gregorian_weekday_def Let_def y'_def [symmetric] Y_def algebra_simps)
  finally show ?thesis by simp
qed



subsection \<open>Sample inputs\<close>

text \<open>
  The start of the module's own run, 2025-01-06 00:00:00 (a Monday), and small tables
  that the later instances use.
\<close>

lemma resolution_pandas_at: "resolution (pandas_at r) = r"
  by (simp add: pandas_at_def)

lemma iso_texts:
  "iso_parser r ''2025-01-06 00:00:00'' = Some (1736121600 * r)"
  "iso_parser r ''2025-01-06 14:00:00'' = Some (1736172000 * r)"
  "iso_parser r ''2025-01-06 15:00:00'' = Some (1736175600 * r)"
  "iso_parser r ''2025-01-06 21:45:00'' = Some (1736199900 * r)"
  "iso_parser r ''2025-01-06 22:00:00'' = Some (1736200800 * r)"
  "iso_parser r ''2025-01-11 00:00:00'' = Some (1736553600 * r)"
  by (simp_all add: iso_parser_def Let_def digit_val_def civil_ticks_def days_from_civil_def
      days_in_month_def is_leap_def)

lemma parsed_ns:
  "to_datetime pandas_ns ''2025-01-06 00:00:00'' = Inr 1736121600000000000"
  "to_datetime pandas_ns ''2025-01-06 14:00:00'' = Inr 1736172000000000000"
  "to_datetime pandas_ns ''2025-01-06 15:00:00'' = Inr 1736175600000000000"
  "to_datetime pandas_ns ''2025-01-06 21:45:00'' = Inr 1736199900000000000"
  "to_datetime pandas_ns ''2025-01-06 22:00:00'' = Inr 1736200800000000000"
  "to_datetime pandas_ns ''2025-01-11 00:00:00'' = Inr 1736553600000000000"
  by (simp_all add: to_datetime_def pandas_at_def iso_texts in_bounds_def)

lemma parsed_us:
  "to_datetime pandas_us ''2025-01-06 00:00:00'' = Inr 1736121600000000"
  "to_datetime pandas_us ''2025-01-06 14:00:00'' = Inr 1736172000000000"
  "to_datetime pandas_us ''2025-01-06 21:45:00'' = Inr 1736199900000000"
  "to_datetime pandas_us ''2025-01-06 22:00:00'' = Inr 1736200800000000"
  by (simp_all add: to_datetime_def pandas_at_def iso_texts in_bounds_def)

lemma sample_table:
  "generate_tnb_tou_data pandas_ns ''2025-01-06 00:00:00'' 1 480 =
     Inr \<lparr>Timestamp = [1736121600000000000, 1736150400000000000, 1736179200000000000],
          Price_sen_per_kWh = [34.43, 34.43, 38.52],
          DayOfWeek = [0, 0, 0], Hour = [0, 8, 16]\<rparr>"
proof -
  have "representable pandas_ns 1736121600000000000 1 480"
    by (simp add: representable_def in_bounds_def pandas_at_def)
  from generate_parsed [OF parsed_ns(1) _ _ this] show ?thesis
    by (simp add: pandas_at_def grid_def upto_rec1 price_at_unfold hour_def dayofweek_def)
qed


lemma weekly_table:
  "generate_tnb_tou_data pandas_ns ''2025-01-06 15:00:00'' 14 10080 =
     Inr \<lparr>Timestamp = [1736175600000000000, 1736780400000000000],
          Price_sen_per_kWh = [38.52, 38.52],
          DayOfWeek = [0, 0], Hour = [15, 15]\<rparr>"
proof -
  have "representable pandas_ns 1736175600000000000 14 10080"
    by (simp add: representable_def in_bounds_def pandas_at_def)
  from generate_parsed [OF parsed_ns(3) _ _ this] show ?thesis
    by (simp add: pandas_at_def grid_def upto_rec1 price_at_unfold hour_def dayofweek_def)
qed

lemma weekend_table:
  "generate_tnb_tou_data pandas_ns ''2025-01-11 00:00:00'' 2 960 =
     Inr \<lparr>Timestamp = [1736553600000000000, 1736611200000000000, 1736668800000000000],
          Price_sen_per_kWh = [34.43, 34.43, 34.43],
          DayOfWeek = [5, 5, 6], Hour = [0, 16, 8]\<rparr>"
proof -
  have "representable pandas_ns 1736553600000000000 2 960"
    by (simp add: representable_def in_bounds_def pandas_at_def)
  from generate_parsed [OF parsed_ns(6) _ _ this] show ?thesis
    by (simp add: pandas_at_def grid_def upto_rec1 price_at_unfold hour_def dayofweek_def)
qed

lemma empty_table_ns:
  "generate_tnb_tou_data pandas_ns ''2025-01-06 00:00:00'' 0 15 =
     Inr \<lparr>Timestamp = [], Price_sen_per_kWh = [], DayOfWeek = [], Hour = []\<rparr>"
proof -
  have "representable pandas_ns 1736121600000000000 0 15"
    by (simp add: representable_def in_bounds_def pandas_at_def)
  from generate_parsed [OF parsed_ns(1) _ _ this] show ?thesis
    by (simp add: pandas_at_def grid_def)
qed

lemma out_of_range_step:
  "generate_tnb_tou_data pandas_ns ''2025-01-06 00:00:00'' n 153722867281 = Inl OutOfBounds"
  "generate_tnb_tou_data pandas_us ''2025-01-06 00:00:00'' n 153722867281 = Inl OutOfBounds"
proof -
  have "\<not> representable pandas_ns 1736121600000000000 n 153722867281"
    by (simp add: representable_def in_bounds_def pandas_at_def)
  from generate_out_of_range [OF parsed_ns(1) this]
  show "generate_tnb_tou_data pandas_ns ''2025-01-06 00:00:00'' n 153722867281 = Inl OutOfBounds" .
  have "\<not> representable pandas_us 1736121600000000 n 153722867281"
    by (simp add: representable_def in_bounds_def pandas_at_def)
  from generate_out_of_range [OF parsed_us(1) this]
  show "generate_tnb_tou_data pandas_us ''2025-01-06 00:00:00'' n 153722867281 = Inl OutOfBounds" .
qed


subsection \<open>Row count\<close>



subsection \<open>The tariff rule\<close>

text \<open>
  C2. In every generated table, a row whose day of week is Monday to Friday (0 to 4)
  has the price 38.52 when its hour is at least 14 and less than 22, and 34.43 at every
  other hour.
\<close>

theorem weekday_price:
  assumes "generate_tnb_tou_data lib start_date num_days time_step_minutes = Inr df"
    and "i < nrows df" and "DayOfWeek df ! i \<in> {0, 1, 2, 3, 4}"
  shows "Price_sen_per_kWh df ! i =
           (if 14 \<le> Hour df ! i \<and> Hour df ! i < 22 then 38.52 else 34.43)"
proof -
  have "dayofweek lib (Timestamp df ! i) \<in> {0, 1, 2, 3, 4}"
    using assms(3) generated_row(1) [OF assms(1,2)] by simp
  then have "\<not> 5 \<le> dayofweek lib (Timestamp df ! i)" by auto
  then show ?thesis
    using generated_row(2,3) [OF assms(1,2)] by (simp add: price_at_unfold)
qed

text \<open>
  Monday 2025-01-06 at 08:00 (off-peak) and at 16:00 (peak).
\<close>

theorem weekday_price_witness:
  "generate_tnb_tou_data pandas_ns ''2025-01-06 00:00:00'' 1 480 =
     Inr \<lparr>Timestamp = [1736121600000000000, 1736150400000000000, 1736179200000000000],
          Price_sen_per_kWh = [34.43, 34.43, 38.52],
          DayOfWeek = [0, 0, 0], Hour = [0, 8, 16]\<rparr>
   \<and> (2::nat) < 3 \<and> [0, 0, 0::int] ! 2 \<in> {0, 1, 2, 3, 4}
   \<and> [34.43, 34.43, 38.52::real] ! 2 = 38.52 \<and> [34.43, 34.43, 38.52::real] ! 1 = 34.43"
  using weekday_price [OF sample_table, of 2] weekday_price [OF sample_table, of 1] sample_table
  by (simp add: nrows_def)

text \<open>
  C3. In every generated table, a row whose day of week is Saturday (5) or Sunday (6) has
  the price 34.43, whatever its hour.
\<close>

theorem weekend_price:
  assumes "generate_tnb_tou_data lib start_date num_days time_step_minutes = Inr df"
    and "i < nrows df" and "DayOfWeek df ! i = 5 \<or> DayOfWeek df ! i = 6"
  shows "Price_sen_per_kWh df ! i = 34.43"
proof -
  have "5 \<le> dayofweek lib (Timestamp df ! i)"
    using assms(3) generated_row(1) [OF assms(1,2)] by auto
  then show ?thesis
    using generated_row(3) [OF assms(1,2)] by (simp add: price_at_unfold)
qed

text \<open>
  Saturday 2025-01-11 at 16:00, inside the weekday peak window, is off-peak.
\<close>

theorem weekend_price_witness:
  "generate_tnb_tou_data pandas_ns ''2025-01-11 00:00:00'' 2 960 =
     Inr \<lparr>Timestamp = [1736553600000000000, 1736611200000000000, 1736668800000000000],
          Price_sen_per_kWh = [34.43, 34.43, 34.43],
          DayOfWeek = [5, 5, 6], Hour = [0, 16, 8]\<rparr>
   \<and> (1::nat) < 3 \<and> ([5, 5, 6::int] ! 1 = 5 \<or> [5, 5, 6::int] ! 1 = 6)
   \<and> [0, 16, 8::int] ! 1 = 16 \<and> [34.43, 34.43, 34.43::real] ! 1 = 34.43"
  using weekend_price [OF weekend_table, of 1] weekend_table
  by (simp add: nrows_def)

text \<open>
  C4. Every price of every generated table is one of the two constants 34.43 and 38.52,
  and the price depends on the day of week and the hour only: two rows, of the same
  table or of two tables, that agree on both carry the same price.
\<close>

theorem price_two_valued:
  assumes "generate_tnb_tou_data lib start_date num_days time_step_minutes = Inr df"
    and "i < nrows df"
    and "generate_tnb_tou_data lib start_date' num_days' time_step_minutes' = Inr df'"
    and "j < nrows df'"
  shows "(Price_sen_per_kWh df ! i = 34.43 \<or> Price_sen_per_kWh df ! i = 38.52)
       \<and> (DayOfWeek df ! i = DayOfWeek df' ! j \<and> Hour df ! i = Hour df' ! j
            \<longrightarrow> Price_sen_per_kWh df ! i = Price_sen_per_kWh df' ! j)"
  using generated_row [OF assms(1,2)] generated_row [OF assms(3,4)]
  by (simp add: price_at_unfold)

text \<open>
  Two Mondays at 15:00, one week apart.
\<close>

theorem price_two_valued_witness:
  "generate_tnb_tou_data pandas_ns ''2025-01-06 15:00:00'' 14 10080 =
     Inr \<lparr>Timestamp = [1736175600000000000, 1736780400000000000],
          Price_sen_per_kWh = [38.52, 38.52],
          DayOfWeek = [0, 0], Hour = [15, 15]\<rparr>
   \<and> (0::nat) < 2 \<and> (1::nat) < 2
   \<and> [0, 0::int] ! 0 = [0, 0] ! 1 \<and> [15, 15::int] ! 0 = [15, 15] ! 1
   \<and> ([38.52, 38.52::real] ! 0 = 34.43 \<or> [38.52, 38.52::real] ! 0 = 38.52)
   \<and> [38.52, 38.52::real] ! 0 = [38.52, 38.52] ! 1"
  using price_two_valued [OF weekly_table _ weekly_table, of 0 1] weekly_table
  by (simp add: nrows_def)

subsection \<open>The time index\<close>

text \<open>
  C5. For every valid input, the timestamps of the table that the function returns are
  pairwise distinct and strictly increasing, and two consecutive timestamps differ by
  exactly \<open>time_step_minutes\<close> minutes, the value of \<open>pd.Timedelta(minutes=time_step_minutes)\<close>.
\<close>

theorem timestamps_regular:
  assumes "generate_tnb_tou_data lib start_date num_days time_step_minutes = Inr df"
    and "0 < time_step_minutes" and "0 < resolution lib"
  shows "distinct (Timestamp df) \<and> sorted_wrt (<) (Timestamp df)
       \<and> (\<forall>i. Suc i < nrows df \<longrightarrow>
             Timedelta_minutes lib time_step_minutes
               = Inr (Timestamp df ! Suc i - Timestamp df ! i))"
proof -
  from assms(1) obtain t0 where
    rep: "representable lib t0 num_days time_step_minutes" and
    df: "df = \<lparr>Timestamp = grid lib t0 num_days time_step_minutes,
                Price_sen_per_kWh = map (price_at lib) (grid lib t0 num_days time_step_minutes),
                DayOfWeek = map (dayofweek lib) (grid lib t0 num_days time_step_minutes),
                Hour = map (hour lib) (grid lib t0 num_days time_step_minutes)\<rparr>"
    by (rule generate_Inr_cases)
  let ?g = "grid lib t0 num_days time_step_minutes"
  have td: "Timedelta_minutes lib time_step_minutes = Inr (time_step_minutes * 60 * resolution lib)"
    using rep by (simp add: representable_def Timedelta_minutes_def)
  have "sorted_wrt (<) ?g" using assms(2,3) by (rule grid_increasing)
  moreover from this have "distinct ?g" using strict_sorted_iff by blast
  moreover have "\<forall>i. Suc i < length ?g \<longrightarrow>
      Timedelta_minutes lib time_step_minutes = Inr (?g ! Suc i - ?g ! i)"
    by (simp add: grid_step td)
  ultimately show ?thesis by (simp add: df nrows_def)
qed

theorem timestamps_regular_witness:
  "generate_tnb_tou_data pandas_ns ''2025-01-06 00:00:00'' 1 480 =
     Inr \<lparr>Timestamp = [1736121600000000000, 1736150400000000000, 1736179200000000000],
          Price_sen_per_kWh = [34.43, 34.43, 38.52],
          DayOfWeek = [0, 0, 0], Hour = [0, 8, 16]\<rparr>
   \<and> (0::int) < 480 \<and> 0 < resolution pandas_ns
   \<and> distinct [1736121600000000000, 1736150400000000000, 1736179200000000000 :: int]
   \<and> sorted_wrt (<) [1736121600000000000, 1736150400000000000, 1736179200000000000 :: int]
   \<and> Timedelta_minutes pandas_ns 480 = Inr (1736150400000000000 - 1736121600000000000)
   \<and> Timedelta_minutes pandas_ns 480 = Inr (1736179200000000000 - 1736150400000000000)"
  using timestamps_regular [OF sample_table] sample_table
  by (simp add: nrows_def pandas_at_def Timedelta_minutes_def in_bounds_def)

subsection \<open>Failures\<close>

lemma empty_table_us:
  "generate_tnb_tou_data pandas_us ''2025-01-06 00:00:00'' 0 15 =
     Inr \<lparr>Timestamp = [], Price_sen_per_kWh = [], DayOfWeek = [], Hour = []\<rparr>"
proof -
  have "representable pandas_us 1736121600000000 0 15"
    by (simp add: representable_def in_bounds_def pandas_at_def)
  from generate_parsed [OF parsed_us(1) _ _ this] show ?thesis
    by (simp add: pandas_at_def grid_def)
qed

text \<open>
  The function has no check of its own: what fails is a library call. With zero days
  and a step of 15 minutes the computed end lies before the start, and the result is the
  empty table, not an error. With one day and a step of 153722867281 minutes, a valid
  input, the minute difference is outside the 64-bit range at either resolution, and the
  library raises.
\<close>

theorem no_error_for_zero_days:
  "(0::int) \<le> 0
   \<and> generate_tnb_tou_data pandas_ns ''2025-01-06 00:00:00'' 0 15 =
        Inr \<lparr>Timestamp = [], Price_sen_per_kWh = [], DayOfWeek = [], Hour = []\<rparr>
   \<and> generate_tnb_tou_data pandas_us ''2025-01-06 00:00:00'' 0 15 =
        Inr \<lparr>Timestamp = [], Price_sen_per_kWh = [], DayOfWeek = [], Hour = []\<rparr>
   \<and> (0::int) < 1 \<and> (0::int) < 153722867281
   \<and> generate_tnb_tou_data pandas_ns ''2025-01-06 00:00:00'' 1 153722867281 = Inl OutOfBounds
   \<and> generate_tnb_tou_data pandas_us ''2025-01-06 00:00:00'' 1 153722867281 = Inl OutOfBounds"
  using empty_table_ns empty_table_us out_of_range_step [of 1] by simp

text \<open>
  C6, as the code has it. The function fails exactly when one of its library calls
  fails: the start text is not a timestamp of the library, the step is zero (the
  frequency of the range is then zero), or one of the four time values of source line 26
  (the day difference, the start plus it, the minute difference, the end) is outside
  the library's 64-bit range. A number of days that is zero or negative is not an error
  in itself, nor is a negative step.
\<close>

theorem failure_conditions:
  assumes "0 < resolution lib"
  shows "(\<exists>e. generate_tnb_tou_data lib start_date num_days time_step_minutes = Inl e)
     = (case to_datetime lib start_date of
          Inl e \<Rightarrow> True
        | Inr t0 \<Rightarrow>
            time_step_minutes = 0 \<or> \<not> representable lib t0 num_days time_step_minutes)"
proof (cases "to_datetime lib start_date")
  case (Inl e)
  then show ?thesis using generate_unparsed [OF Inl] by simp
next
  case (Inr t0)
  have r: "resolution lib \<noteq> 0" using assms by simp
  show ?thesis
  proof (cases "representable lib t0 num_days time_step_minutes")
    case False
    then show ?thesis using generate_out_of_range [OF Inr False] Inr by simp
  next
    case True
    show ?thesis
    proof (cases "time_step_minutes = 0")
      case z: True
      then show ?thesis using generate_zero_stride [OF Inr True] Inr by simp
    next
      case False
      then show ?thesis using generate_parsed [OF Inr False r True] Inr True by simp
    qed
  qed
qed

text \<open>
  A text that is no timestamp, a zero step and a step out of range fail; zero days and
  a negative step do not.
\<close>

theorem failure_conditions_witness:
  "0 < resolution pandas_ns
   \<and> (\<exists>e. generate_tnb_tou_data pandas_ns ''tariff'' 1 15 = Inl e)
   \<and> (\<exists>e. generate_tnb_tou_data pandas_ns ''2025-01-06 00:00:00'' 1 0 = Inl e)
   \<and> (\<exists>e. generate_tnb_tou_data pandas_ns ''2025-01-06 00:00:00'' 1 153722867281 = Inl e)
   \<and> \<not> (\<exists>e. generate_tnb_tou_data pandas_ns ''2025-01-06 00:00:00'' 0 15 = Inl e)
   \<and> \<not> (\<exists>e. generate_tnb_tou_data pandas_ns ''2025-01-06 00:00:00'' 1 (- 15) = Inl e)"
proof -
  have r: "0 < resolution pandas_ns" by (simp add: pandas_at_def)
  have u: "to_datetime pandas_ns ''tariff'' = Inl Unparseable"
    by (simp add: to_datetime_def pandas_at_def iso_parser_def Let_def)
  have rep: "\<not> representable pandas_ns 1736121600000000000 1 153722867281"
    "representable pandas_ns 1736121600000000000 0 15"
    "representable pandas_ns 1736121600000000000 1 (- 15)"
    by (simp_all add: representable_def in_bounds_def pandas_at_def)
  show ?thesis
    using failure_conditions [OF r, of "''tariff''" 1 15]
      failure_conditions [OF r, of "''2025-01-06 00:00:00''" 1 0]
      failure_conditions [OF r, of "''2025-01-06 00:00:00''" 1 153722867281]
      failure_conditions [OF r, of "''2025-01-06 00:00:00''" 0 15]
      failure_conditions [OF r, of "''2025-01-06 00:00:00''" 1 "- 15"]
      r u rep parsed_ns(1)
    by simp
qed

subsection \<open>The scenario of the specification\<close>

text \<open>
  C7. Starting on Monday 2025-01-06 00:00:00 with one day at 15 minutes, the table has 96
  rows; the row at 00:00:00 has price 34.43, day of week 0 and hour 0; the rows at 14:00:00
  and 21:45:00 have price 38.52; the row at 22:00:00 has price 34.43. The rows are the
  ones of index 0, 56, 87 and 88: their timestamps are what the four texts parse to. The
  same holds at nanosecond and at microsecond resolution.
\<close>

theorem monday_scenario:
  "(case generate_tnb_tou_data pandas_ns ''2025-01-06 00:00:00'' 1 15 of
     Inl e \<Rightarrow> False
   | Inr df \<Rightarrow>
       nrows df = 96
       \<and> to_datetime pandas_ns ''2025-01-06 00:00:00'' = Inr (Timestamp df ! 0)
       \<and> Price_sen_per_kWh df ! 0 = 34.43 \<and> DayOfWeek df ! 0 = 0 \<and> Hour df ! 0 = 0
       \<and> to_datetime pandas_ns ''2025-01-06 14:00:00'' = Inr (Timestamp df ! 56)
       \<and> Price_sen_per_kWh df ! 56 = 38.52
       \<and> to_datetime pandas_ns ''2025-01-06 21:45:00'' = Inr (Timestamp df ! 87)
       \<and> Price_sen_per_kWh df ! 87 = 38.52
       \<and> to_datetime pandas_ns ''2025-01-06 22:00:00'' = Inr (Timestamp df ! 88)
       \<and> Price_sen_per_kWh df ! 88 = 34.43)
   \<and> (case generate_tnb_tou_data pandas_us ''2025-01-06 00:00:00'' 1 15 of
     Inl e \<Rightarrow> False
   | Inr df \<Rightarrow>
       nrows df = 96
       \<and> to_datetime pandas_us ''2025-01-06 00:00:00'' = Inr (Timestamp df ! 0)
       \<and> Price_sen_per_kWh df ! 0 = 34.43 \<and> DayOfWeek df ! 0 = 0 \<and> Hour df ! 0 = 0
       \<and> to_datetime pandas_us ''2025-01-06 14:00:00'' = Inr (Timestamp df ! 56)
       \<and> Price_sen_per_kWh df ! 56 = 38.52
       \<and> to_datetime pandas_us ''2025-01-06 21:45:00'' = Inr (Timestamp df ! 87)
       \<and> Price_sen_per_kWh df ! 87 = 38.52
       \<and> to_datetime pandas_us ''2025-01-06 22:00:00'' = Inr (Timestamp df ! 88)
       \<and> Price_sen_per_kWh df ! 88 = 34.43)"
proof -
  let ?g = "grid pandas_ns 1736121600000000000 1 15"
  have len: "length ?g = 96" by (simp add: length_grid)
  have g: "?g ! 0 = 1736121600000000000" "?g ! 56 = 1736172000000000000"
    "?g ! 87 = 1736199900000000000" "?g ! 88 = 1736200800000000000"
    by (simp_all add: nth_grid len resolution_pandas_at)
  have rep: "representable pandas_ns 1736121600000000000 1 15"
    by (simp add: representable_def in_bounds_def pandas_at_def)
  have ns: "generate_tnb_tou_data pandas_ns ''2025-01-06 00:00:00'' 1 15 =
      Inr \<lparr>Timestamp = ?g, Price_sen_per_kWh = map (price_at pandas_ns) ?g,
           DayOfWeek = map (dayofweek pandas_ns) ?g, Hour = map (hour pandas_ns) ?g\<rparr>"
    using generate_parsed [OF parsed_ns(1) _ _ rep] by (simp add: pandas_at_def)
  let ?h = "grid pandas_us 1736121600000000 1 15"
  have len': "length ?h = 96" by (simp add: length_grid)
  have h: "?h ! 0 = 1736121600000000" "?h ! 56 = 1736172000000000"
    "?h ! 87 = 1736199900000000" "?h ! 88 = 1736200800000000"
    by (simp_all add: nth_grid len' resolution_pandas_at)
  have rep': "representable pandas_us 1736121600000000 1 15"
    by (simp add: representable_def in_bounds_def pandas_at_def)
  have us: "generate_tnb_tou_data pandas_us ''2025-01-06 00:00:00'' 1 15 =
      Inr \<lparr>Timestamp = ?h, Price_sen_per_kWh = map (price_at pandas_us) ?h,
           DayOfWeek = map (dayofweek pandas_us) ?h, Hour = map (hour pandas_us) ?h\<rparr>"
    using generate_parsed [OF parsed_us(1) _ _ rep'] by (simp add: pandas_at_def)
  have a: "price_at pandas_ns 1736121600000000000 = 34.43"
    "price_at pandas_ns 1736172000000000000 = 38.52"
    "price_at pandas_ns 1736199900000000000 = 38.52"
    "price_at pandas_ns 1736200800000000000 = 34.43"
    "dayofweek pandas_ns 1736121600000000000 = 0" "hour pandas_ns 1736121600000000000 = 0"
    by (simp_all add: price_at_unfold hour_def dayofweek_def pandas_at_def)
  have b: "price_at pandas_us 1736121600000000 = 34.43"
    "price_at pandas_us 1736172000000000 = 38.52"
    "price_at pandas_us 1736199900000000 = 38.52"
    "price_at pandas_us 1736200800000000 = 34.43"
    "dayofweek pandas_us 1736121600000000 = 0" "hour pandas_us 1736121600000000 = 0"
    by (simp_all add: price_at_unfold hour_def dayofweek_def pandas_at_def)
  show ?thesis
    unfolding ns us
    by (simp add: nrows_def len len' g h a b parsed_ns parsed_us)
qed

subsection \<open>Shape of the table\<close>

text \<open>
  C8. In the table that the function returns, the three columns are as long as the index
  (every row has a price, a day of week and an hour), every price is one of the two
  constants, and in every row the day of week and the hour are those of the row's own
  timestamp, within 0..6 and 0..23: whichever civil date and time of day the timestamp
  is the tick count of, the day of week is the calendar's weekday of that date, Monday
  being 0 and Sunday 6, and the hour is the hour of that time of day.
\<close>

theorem table_well_formed:
  assumes "generate_tnb_tou_data lib start_date num_days time_step_minutes = Inr df"
    and "i < nrows df"
  shows "length (Price_sen_per_kWh df) = nrows df
       \<and> length (DayOfWeek df) = nrows df \<and> length (Hour df) = nrows df
       \<and> (Price_sen_per_kWh df ! i = 34.43 \<or> Price_sen_per_kWh df ! i = 38.52)
       \<and> 0 \<le> DayOfWeek df ! i \<and> DayOfWeek df ! i \<le> 6
       \<and> 0 \<le> Hour df ! i \<and> Hour df ! i \<le> 23
       \<and> (\<forall>y m d hh mm ss part.
             1 \<le> m \<and> m \<le> 12 \<and> 0 \<le> hh \<and> hh \<le> 23 \<and> 0 \<le> mm \<and> mm \<le> 59
             \<and> 0 \<le> ss \<and> ss \<le> 59 \<and> 0 \<le> part \<and> part < resolution lib
             \<and> Timestamp df ! i = civil_ticks (resolution lib) y m d hh mm ss + part
             \<longrightarrow> DayOfWeek df ! i = gregorian_weekday y m d \<and> Hour df ! i = hh)"
proof -
  note row = generated_row [OF assms]
  have "DayOfWeek df ! i = gregorian_weekday y m d \<and> Hour df ! i = hh"
    if "1 \<le> m" "m \<le> 12" "0 \<le> hh" "hh \<le> 23" "0 \<le> mm" "mm \<le> 59" "0 \<le> ss" "ss \<le> 59"
      "0 \<le> part" "part < resolution lib"
      "Timestamp df ! i = civil_ticks (resolution lib) y m d hh mm ss + part"
    for y m d hh mm ss part
    using row(1,2) that(11) hour_of_civil [OF that(3-10), of y m d]
      dayofweek_of_civil [OF that(3-10), of y m d] weekday_agrees [OF that(1,2), of y d]
    by simp
  then show ?thesis
    using generated_lengths [OF assms(1)] row hour_range [of lib "Timestamp df ! i"]
      dayofweek_range [of lib "Timestamp df ! i"]
    by (simp add: price_at_unfold)
qed

text \<open>
  The third row of a table that starts on Saturday 2025-01-11 with a step of 16 hours is
  Sunday 2025-01-12 at 08:00: day of week 6, hour 8.
\<close>

theorem table_well_formed_witness:
  "generate_tnb_tou_data pandas_ns ''2025-01-11 00:00:00'' 2 960 =
     Inr \<lparr>Timestamp = [1736553600000000000, 1736611200000000000, 1736668800000000000],
          Price_sen_per_kWh = [34.43, 34.43, 34.43],
          DayOfWeek = [5, 5, 6], Hour = [0, 16, 8]\<rparr>
   \<and> (2::nat) < 3
   \<and> [1736553600000000000, 1736611200000000000, 1736668800000000000] ! 2
       = civil_ticks (resolution pandas_ns) 2025 1 12 8 0 0 + 0
   \<and> (0::int) < resolution pandas_ns
   \<and> gregorian_weekday 2025 1 12 = 6
   \<and> [5, 5, 6::int] ! 2 = gregorian_weekday 2025 1 12 \<and> [0, 16, 8::int] ! 2 = 8"
proof -
  let ?T = "\<lparr>Timestamp = [1736553600000000000, 1736611200000000000, 1736668800000000000],
          Price_sen_per_kWh = [34.43, 34.43, 34.43::real],
          DayOfWeek = [5, 5, 6::int], Hour = [0, 16, 8::int]\<rparr>"
  have n: "2 < nrows ?T" by (simp add: nrows_def)
  have c: "civil_ticks 1000000000 2025 1 12 8 0 0 = 1736668800000000000"
    by (simp add: civil_ticks_def days_from_civil_def)
  have w: "gregorian_weekday 2025 1 12 = 6"
    by (simp add: gregorian_weekday_def month_offset_def)
  have "(1::int) \<le> 1 \<and> (1::int) \<le> 12 \<and> (0::int) \<le> 8 \<and> (8::int) \<le> 23
        \<and> (0::int) \<le> 0 \<and> (0::int) \<le> 59 \<and> (0::int) \<le> 0 \<and> (0::int) \<le> 59
        \<and> (0::int) \<le> 0 \<and> 0 < resolution pandas_ns
        \<and> Timestamp ?T ! 2 = civil_ticks (resolution pandas_ns) 2025 1 12 8 0 0 + 0
      \<longrightarrow> DayOfWeek ?T ! 2 = gregorian_weekday 2025 1 12 \<and> Hour ?T ! 2 = 8"
    using table_well_formed [OF weekend_table n] by blast
  then show ?thesis
    using weekend_table by (simp add: c w resolution_pandas_at)
qed

subsection \<open>Non-positive number of days\<close>

text \<open>
  With zero days and a step of 153722867281 minutes, a positive step, the minute
  difference is outside the 64-bit range at either resolution: the library raises, and no
  table is returned.
\<close>

theorem nonpositive_days_out_of_range:
  "(0::int) \<le> 0 \<and> (0::int) < 153722867281
   \<and> to_datetime pandas_ns ''2025-01-06 00:00:00'' = Inr 1736121600000000000
   \<and> generate_tnb_tou_data pandas_ns ''2025-01-06 00:00:00'' 0 153722867281 = Inl OutOfBounds
   \<and> to_datetime pandas_us ''2025-01-06 00:00:00'' = Inr 1736121600000000
   \<and> generate_tnb_tou_data pandas_us ''2025-01-06 00:00:00'' 0 153722867281 = Inl OutOfBounds"
  using out_of_range_step [of 0] parsed_ns(1) parsed_us(1) by simp

text \<open>
  C10, as the code has it. With a start text that parses and a positive step, every
  number of days that is zero or negative, for which the four time values of source
  line 26 stay inside the library's 64-bit range, makes the computed end fall before the
  start; no error is raised and the table returned has no rows.
\<close>

theorem empty_for_nonpositive_days:
  assumes "to_datetime lib start_date = Inr t0" and "num_days \<le> 0"
    and "0 < time_step_minutes" and "0 < resolution lib"
    and "representable lib t0 num_days time_step_minutes"
  shows "t0 + num_days * 86400 * resolution lib - time_step_minutes * 60 * resolution lib < t0
       \<and> generate_tnb_tou_data lib start_date num_days time_step_minutes =
           Inr \<lparr>Timestamp = [], Price_sen_per_kWh = [], DayOfWeek = [], Hour = []\<rparr>"
proof -
  have "num_days * 1440 div time_step_minutes \<le> 0"
    using assms(2,3) by (simp add: div_nonpos_pos_le0)
  then have "grid lib t0 num_days time_step_minutes = []"
    by (simp add: grid_def)
  moreover have "num_days * 86400 * resolution lib \<le> 0"
    using assms(2,4) by (simp add: mult_le_0_iff)
  moreover have "0 < time_step_minutes * 60 * resolution lib"
    using assms(3,4) by simp
  ultimately have "t0 + num_days * 86400 * resolution lib
      - time_step_minutes * 60 * resolution lib < t0"
    and "grid lib t0 num_days time_step_minutes = []"
    by linarith+
  then show ?thesis
    using generate_parsed [OF assms(1) _ _ assms(5)] assms(3,4) by simp
qed

theorem empty_for_nonpositive_days_witness:
  "to_datetime pandas_ns ''2025-01-06 00:00:00'' = Inr 1736121600000000000
   \<and> (- 3::int) \<le> 0 \<and> (0::int) < 15 \<and> 0 < resolution pandas_ns
   \<and> representable pandas_ns 1736121600000000000 (- 3) 15
   \<and> 1736121600000000000 + (- 3) * 86400 * resolution pandas_ns - 15 * 60 * resolution pandas_ns
       < (1736121600000000000::int)
   \<and> generate_tnb_tou_data pandas_ns ''2025-01-06 00:00:00'' (- 3) 15 =
        Inr \<lparr>Timestamp = [], Price_sen_per_kWh = [], DayOfWeek = [], Hour = []\<rparr>"
proof -
  have r: "0 < resolution pandas_ns" by (simp add: pandas_at_def)
  have rep: "representable pandas_ns 1736121600000000000 (- 3) 15"
    by (simp add: representable_def in_bounds_def pandas_at_def)
  show ?thesis
    using empty_for_nonpositive_days [OF parsed_ns(1) _ _ r rep] parsed_ns(1) r rep
    by simp
qed

end
